theory Spec2Isabelle
  imports Main
begin

section \<open>The ready-order payment handler\<close>

text \<open>
  The repository's request handler \<^verbatim>\<open>POST\<close> (the specification's
  \<^verbatim>\<open>initiateReadyOrderPayment\<close>) reads an order id and a customer id from the
  request body, looks the order up, checks ownership, status and payment method, looks
  the customer up, and asks the payment service for a hosted checkout. Every exit is a
  \<^verbatim>\<open>NextResponse.json(body, {status})\<close>; the whole body sits in one
  \<^verbatim>\<open>try\<close> whose \<^verbatim>\<open>catch\<close> answers 500.

  The three services (\<^verbatim>\<open>databaseService\<close>, \<^verbatim>\<open>authService\<close>,
  \<^verbatim>\<open>paymentService\<close>) are imported modules whose code is not part of the
  handler: they are parameters of the model. The handler's calls to them are recorded,
  in order, in a list returned beside the response. Console logging is left out.
\<close>

subsection \<open>Values read from the request body\<close>

text \<open>
  \<^verbatim>\<open>await request.json()\<close> yields an untyped value, so \<^verbatim>\<open>orderId\<close> and
  \<^verbatim>\<open>customerId\<close> may be any JSON value, or \<^verbatim>\<open>undefined\<close> when the
  property is absent. Numbers are kept when they are integers; objects and arrays are
  one value, which is truthy and never strictly equal to a string.
\<close>

datatype jsval = JUndefined | JNull | JBool bool | JNum int | JStr string | JObject

text \<open>JavaScript truthiness, as \<^verbatim>\<open>!orderId\<close> tests it.\<close>

fun truthy :: "jsval \<Rightarrow> bool" where
  "truthy JUndefined = False"
| "truthy JNull = False"
| "truthy (JBool b) = b"
| "truthy (JNum n) = (n \<noteq> 0)"
| "truthy (JStr s) = (s \<noteq> [])"
| "truthy JObject = True"

text \<open>Truthiness of an optional string property: absent and empty are falsy.\<close>

fun truthy_str :: "string option \<Rightarrow> bool" where
  "truthy_str None = False"
| "truthy_str (Some s) = (s \<noteq> [])"

text \<open>\<^verbatim>\<open>e || d\<close> on an optional string \<open>e\<close> and a string literal \<open>d\<close>.\<close>

fun or_else :: "string option \<Rightarrow> string \<Rightarrow> string" where
  "or_else None d = d"
| "or_else (Some s) d = (if s = [] then d else s)"

text \<open>A template literal \<^verbatim>\<open>${v}\<close> of a value that may be undefined.\<close>

fun template :: "string option \<Rightarrow> string" where
  "template None = ''undefined''"
| "template (Some s) = s"

text \<open>
  An awaited call either resolves to a value or rejects; a rejection is an exception
  inside the handler's \<^verbatim>\<open>try\<close>. For \<^verbatim>\<open>request.json()\<close> the
  rejecting case also stands for a body that is JSON \<^verbatim>\<open>null\<close>, whose
  destructuring throws.
\<close>

datatype 'a outcome = Throws | Returns 'a

record request_body =
  orderId :: jsval
  customerId :: jsval

subsection \<open>Data of the collaborators\<close>

text \<open>The members of \<^verbatim>\<open>OrderStatus\<close> that the repository's pages name.\<close>

datatype OrderStatus =
  PENDING | PICKED_UP | CONFIRMED | IN_PROGRESS | READY | DELIVERED | CANCELLED

text \<open>
  Modelled from the spec: the declaration of \<^verbatim>\<open>PaymentMethod\<close> (in
  \<^verbatim>\<open>lib/types\<close>) is missing from the sources. The handler names one member,
  \<^verbatim>\<open>PAY_ON_PICKUP\<close>; the specification says the type is an enumeration with
  further members (pay-online, pay-by-transfer among them), which are kept by name.
\<close>

datatype PaymentMethod = PAY_ON_PICKUP | OtherMethod string

record Order =
  customerId :: string
  status :: OrderStatus
  paymentMethod :: PaymentMethod
  finalAmount :: int

text \<open>The payload of \<^verbatim>\<open>getOrderById\<close>; its \<^verbatim>\<open>order\<close> property may be absent.\<close>

record order_data =
  order :: "Order option"

text \<open>
  A customer's phone is a string, an object with an optional \<^verbatim>\<open>number\<close>, or
  absent (\<^verbatim>\<open>undefined\<close> or \<^verbatim>\<open>null\<close>).
\<close>

datatype phone = PhoneAbsent | PhoneString string | PhoneObject "string option"

record customer_profile =
  email :: string
  firstName :: string
  lastName :: string
  phone :: phone

record payment_metadata =
  orderId :: jsval
  customerId :: jsval
  customerName :: string
  phoneNumber :: string
  paymentType :: string

record payment_data =
  email :: string
  amount :: int
  currency :: string
  metadata :: payment_metadata
  callback_url :: string

record payment_init =
  authorizationUrl :: "string option"
  reference :: "string option"

text \<open>
  Every service answers \<^verbatim>\<open>{success, data, error?}\<close>. \<open>data = None\<close> is a
  falsy \<^verbatim>\<open>data\<close>.
\<close>

record 'a service_response =
  success :: bool
  data :: "'a option"
  error :: "string option"

text \<open>
  The handler's surroundings: the three service methods it calls and the environment
  variable \<^verbatim>\<open>NEXT_PUBLIC_APP_URL\<close>.
\<close>

record services =
  getOrderById :: "jsval \<Rightarrow> order_data service_response outcome"
  getUserProfile :: "jsval \<Rightarrow> customer_profile service_response outcome"
  initializePayment :: "payment_data \<Rightarrow> payment_init service_response outcome"
  NEXT_PUBLIC_APP_URL :: "string option"

text \<open>The calls the handler makes, in the order it makes them.\<close>

datatype call =
  GetOrderById jsval
| GetUserProfile jsval
| InitializePayment payment_data

subsection \<open>Responses\<close>

text \<open>
  The JSON bodies the handler sends: \<^verbatim>\<open>{success: true, data: {authorizationUrl,
  reference}}\<close> and \<^verbatim>\<open>{success: false, error}\<close>; and the response with its
  status (200 when the handler gives none).
\<close>

datatype json_body =
  Succeeded "string option" "string option"
| Failed string

datatype NextResponse = NextResponse_json json_body nat

fun status_code :: "NextResponse \<Rightarrow> nat" where
  "status_code (NextResponse_json b s) = s"

fun error_message :: "NextResponse \<Rightarrow> string option" where
  "error_message (NextResponse_json (Failed m) s) = Some m"
| "error_message (NextResponse_json (Succeeded u r) s) = None"

fun is_success :: "NextResponse \<Rightarrow> bool" where
  "is_success (NextResponse_json (Succeeded u r) s) = True"
| "is_success (NextResponse_json (Failed m) s) = False"

text \<open>The answer of the \<^verbatim>\<open>catch\<close> block.\<close>

definition internal_server_error :: NextResponse where
  "internal_server_error = NextResponse_json (Failed ''Internal server error'') 500"

subsection \<open>The handler\<close>

text \<open>The phone value of the metadata (line 79 of the handler).\<close>

fun phoneNumber_of :: "phone \<Rightarrow> string" where
  "phoneNumber_of (PhoneString s) = s"
| "phoneNumber_of (PhoneObject n) = or_else n ''''"
| "phoneNumber_of PhoneAbsent = ''''"

text \<open>The object \<^verbatim>\<open>paymentData\<close> (lines 71 to 83).\<close>

definition paymentData ::
  "string option \<Rightarrow> jsval \<Rightarrow> jsval \<Rightarrow> Order \<Rightarrow> customer_profile \<Rightarrow> payment_data" where
  "paymentData app_url oid cid ord customer =
     \<lparr> payment_data.email = customer_profile.email customer,
       amount = finalAmount ord,
       currency = ''NGN'',
       metadata =
         \<lparr> payment_metadata.orderId = oid,
           payment_metadata.customerId = cid,
           customerName = firstName customer @ '' '' @ lastName customer,
           phoneNumber = phoneNumber_of (phone customer),
           paymentType = ''pay_on_pickup'' \<rparr>,
       callback_url = template app_url @ ''/payment/callback'' \<rparr>"

text \<open>
  The handler. It returns the response and the list of the service calls made. Each
  \<open>Throws\<close> branch, and the branch where the order payload has no
  \<^verbatim>\<open>order\<close> (reading \<^verbatim>\<open>order.customerId\<close> then throws), is the
  \<^verbatim>\<open>catch\<close> block.
\<close>

definition POST :: "services \<Rightarrow> request_body outcome \<Rightarrow> NextResponse \<times> call list" where
  "POST svc request_json =
    (case request_json of
       Throws \<Rightarrow> (internal_server_error, [])
     | Returns body \<Rightarrow>
        (let oid = request_body.orderId body; cid = request_body.customerId body in
         if \<not> truthy oid \<or> \<not> truthy cid then
           (NextResponse_json (Failed ''Order ID and Customer ID are required'') 400, [])
         else
          (case getOrderById svc oid of
             Throws \<Rightarrow> (internal_server_error, [GetOrderById oid])
           | Returns orderResponse \<Rightarrow>
              (case (if success orderResponse then data orderResponse else None) of
                 None \<Rightarrow>
                   (NextResponse_json
                      (Failed (or_else (error orderResponse) ''Order not found'')) 404,
                    [GetOrderById oid])
               | Some d \<Rightarrow>
                  (case order d of
                     None \<Rightarrow> (internal_server_error, [GetOrderById oid])
                   | Some ord \<Rightarrow>
                      if JStr (Order.customerId ord) \<noteq> cid then
                        (NextResponse_json (Failed ''Unauthorized access to order'') 403,
                         [GetOrderById oid])
                      else if status ord \<noteq> READY then
                        (NextResponse_json (Failed ''Order is not ready for pickup'') 400,
                         [GetOrderById oid])
                      else if paymentMethod ord \<noteq> PAY_ON_PICKUP then
                        (NextResponse_json (Failed ''Order is not set for pay on pickup'') 400,
                         [GetOrderById oid])
                      else
                       (case getUserProfile svc cid of
                          Throws \<Rightarrow>
                            (internal_server_error, [GetOrderById oid, GetUserProfile cid])
                        | Returns customerResponse \<Rightarrow>
                           (case (if success customerResponse
                                  then data customerResponse else None) of
                              None \<Rightarrow>
                                (NextResponse_json (Failed ''Customer not found'') 404,
                                 [GetOrderById oid, GetUserProfile cid])
                            | Some customer \<Rightarrow>
                               (let pd = paymentData (NEXT_PUBLIC_APP_URL svc)
                                           oid cid ord customer;
                                    calls = [GetOrderById oid, GetUserProfile cid,
                                             InitializePayment pd]
                                in
                                 case initializePayment svc pd of
                                   Throws \<Rightarrow> (internal_server_error, calls)
                                 | Returns paymentResult \<Rightarrow>
                                    if success paymentResult \<and>
                                       truthy_str (Option.bind (data paymentResult)
                                                     authorizationUrl)
                                    then
                                      (NextResponse_json
                                         (Succeeded
                                            (Option.bind (data paymentResult) authorizationUrl)
                                            (Option.bind (data paymentResult) reference))
                                         200,
                                       calls)
                                    else
                                      (NextResponse_json
                                         (Failed (or_else (error paymentResult)
                                                    ''Failed to initialize payment''))
                                         500,
                                       calls)))))))))"

text \<open>The number of payment initiations among the calls made.\<close>

fun is_initiation :: "call \<Rightarrow> bool" where
  "is_initiation (InitializePayment pd) = True"
| "is_initiation (GetOrderById v) = False"
| "is_initiation (GetUserProfile v) = False"

definition initiations :: "call list \<Rightarrow> nat" where
  "initiations cs = length (filter is_initiation cs)"

subsection \<open>Concrete surroundings\<close>

text \<open>
  Services that answer every call with a fixed outcome, and the two usual answers: a
  successful one carrying data, and a failed one carrying an optional message.
\<close>

definition fixture ::
  "order_data service_response outcome \<Rightarrow> customer_profile service_response outcome \<Rightarrow>
   payment_init service_response outcome \<Rightarrow> services" where
  "fixture ores cres pres =
     \<lparr> getOrderById = (\<lambda>v. ores), getUserProfile = (\<lambda>v. cres),
       initializePayment = (\<lambda>pd. pres),
       NEXT_PUBLIC_APP_URL = Some ''https://app.example'' \<rparr>"

definition resolves :: "'a \<Rightarrow> 'a service_response outcome" where
  "resolves x = Returns \<lparr> success = True, data = Some x, error = None \<rparr>"

definition fails_with :: "string option \<Rightarrow> 'a service_response outcome" where
  "fails_with e = Returns \<lparr> success = False, data = None, error = e \<rparr>"

definition request :: "jsval \<Rightarrow> jsval \<Rightarrow> request_body outcome" where
  "request oid cid =
     Returns \<lparr> request_body.orderId = oid, request_body.customerId = cid \<rparr>"

text \<open>
  The scenario of the specification. Order \<^verbatim>\<open>O1\<close> of customer \<^verbatim>\<open>C1\<close>:
  ready, paid on pickup, 500000 kobo; the customer is Ada Lovelace; the payment service
  answers with a checkout URL and the reference \<^verbatim>\<open>REF123\<close>.
\<close>

definition order_O1 :: Order where
  "order_O1 = \<lparr> Order.customerId = ''C1'', status = READY,
                paymentMethod = PAY_ON_PICKUP, finalAmount = 500000 \<rparr>"

definition customer_C1 :: customer_profile where
  "customer_C1 = \<lparr> customer_profile.email = ''a@b.com'', firstName = ''Ada'',
                   lastName = ''Lovelace'', phone = PhoneString ''08012345678'' \<rparr>"

definition checkout_x :: payment_init where
  "checkout_x = \<lparr> authorizationUrl = Some ''https://pay.example/x'',
                  reference = Some ''REF123'' \<rparr>"

definition scenario :: services where
  "scenario = fixture (resolves \<lparr> order = Some order_O1 \<rparr>) (resolves customer_C1)
                (resolves checkout_x)"

definition request_O1 :: "request_body outcome" where
  "request_O1 = request (JStr ''O1'') (JStr ''C1'')"

section \<open>Properties\<close>

subsection \<open>One lemma for each exit of the handler\<close>

lemma POST_json_throws: "POST svc Throws = (internal_server_error, [])"
  by (simp add: POST_def)

lemma POST_malformed:
  assumes "\<not> truthy (request_body.orderId body) \<or> \<not> truthy (request_body.customerId body)"
  shows "POST svc (Returns body) =
           (NextResponse_json (Failed ''Order ID and Customer ID are required'') 400, [])"
  using assms by (simp add: POST_def)

lemma POST_order_throws:
  assumes "request_body.orderId body = oid" "request_body.customerId body = cid"
    and "truthy oid" "truthy cid" "getOrderById svc oid = Throws"
  shows "POST svc (Returns body) = (internal_server_error, [GetOrderById oid])"
  using assms by (simp add: POST_def)

lemma POST_not_found:
  assumes "request_body.orderId body = oid" "request_body.customerId body = cid"
    and "truthy oid" "truthy cid" "getOrderById svc oid = Returns r"
    and "\<not> success r \<or> data r = None"
  shows "POST svc (Returns body) =
           (NextResponse_json (Failed (or_else (error r) ''Order not found'')) 404,
            [GetOrderById oid])"
  using assms by (auto simp add: POST_def)

lemma POST_no_order:
  assumes "request_body.orderId body = oid" "request_body.customerId body = cid"
    and "truthy oid" "truthy cid" "getOrderById svc oid = Returns r"
    and "success r" "data r = Some d" "order d = None"
  shows "POST svc (Returns body) = (internal_server_error, [GetOrderById oid])"
  using assms by (simp add: POST_def)

lemma POST_unauthorized:
  assumes "request_body.orderId body = oid" "request_body.customerId body = cid"
    and "truthy oid" "truthy cid" "getOrderById svc oid = Returns r"
    and "success r" "data r = Some d" "order d = Some ord"
    and "JStr (Order.customerId ord) \<noteq> cid"
  shows "POST svc (Returns body) =
           (NextResponse_json (Failed ''Unauthorized access to order'') 403,
            [GetOrderById oid])"
  using assms by (simp add: POST_def)

lemma POST_not_ready:
  assumes "request_body.orderId body = oid" "request_body.customerId body = cid"
    and "truthy oid" "truthy cid" "getOrderById svc oid = Returns r"
    and "success r" "data r = Some d" "order d = Some ord"
    and "JStr (Order.customerId ord) = cid" "status ord \<noteq> READY"
  shows "POST svc (Returns body) =
           (NextResponse_json (Failed ''Order is not ready for pickup'') 400,
            [GetOrderById oid])"
  using assms by (simp add: POST_def)

lemma POST_wrong_method:
  assumes "request_body.orderId body = oid" "request_body.customerId body = cid"
    and "truthy oid" "truthy cid" "getOrderById svc oid = Returns r"
    and "success r" "data r = Some d" "order d = Some ord"
    and "JStr (Order.customerId ord) = cid" "status ord = READY"
    and "paymentMethod ord \<noteq> PAY_ON_PICKUP"
  shows "POST svc (Returns body) =
           (NextResponse_json (Failed ''Order is not set for pay on pickup'') 400,
            [GetOrderById oid])"
  using assms by (simp add: POST_def)

lemma POST_profile_throws:
  assumes "request_body.orderId body = oid" "request_body.customerId body = cid"
    and "truthy oid" "truthy cid" "getOrderById svc oid = Returns r"
    and "success r" "data r = Some d" "order d = Some ord"
    and "JStr (Order.customerId ord) = cid" "status ord = READY"
    and "paymentMethod ord = PAY_ON_PICKUP"
    and "getUserProfile svc cid = Throws"
  shows "POST svc (Returns body) =
           (internal_server_error, [GetOrderById oid, GetUserProfile cid])"
  using assms by (simp add: POST_def)

lemma POST_customer_not_found:
  assumes "request_body.orderId body = oid" "request_body.customerId body = cid"
    and "truthy oid" "truthy cid" "getOrderById svc oid = Returns r"
    and "success r" "data r = Some d" "order d = Some ord"
    and "JStr (Order.customerId ord) = cid" "status ord = READY"
    and "paymentMethod ord = PAY_ON_PICKUP"
    and "getUserProfile svc cid = Returns cr" "\<not> success cr \<or> data cr = None"
  shows "POST svc (Returns body) =
           (NextResponse_json (Failed ''Customer not found'') 404,
            [GetOrderById oid, GetUserProfile cid])"
  using assms by (auto simp add: POST_def)

lemma POST_payment_throws:
  assumes "request_body.orderId body = oid" "request_body.customerId body = cid"
    and "truthy oid" "truthy cid" "getOrderById svc oid = Returns r"
    and "success r" "data r = Some d" "order d = Some ord"
    and "JStr (Order.customerId ord) = cid" "status ord = READY"
    and "paymentMethod ord = PAY_ON_PICKUP"
    and "getUserProfile svc cid = Returns cr" "success cr" "data cr = Some customer"
    and "initializePayment svc (paymentData (NEXT_PUBLIC_APP_URL svc) oid cid ord customer)
           = Throws"
  shows "POST svc (Returns body) =
           (internal_server_error,
            [GetOrderById oid, GetUserProfile cid,
             InitializePayment (paymentData (NEXT_PUBLIC_APP_URL svc) oid cid ord customer)])"
  using assms by (simp add: POST_def Let_def)

lemma POST_payment_failed:
  assumes "request_body.orderId body = oid" "request_body.customerId body = cid"
    and "truthy oid" "truthy cid" "getOrderById svc oid = Returns r"
    and "success r" "data r = Some d" "order d = Some ord"
    and "JStr (Order.customerId ord) = cid" "status ord = READY"
    and "paymentMethod ord = PAY_ON_PICKUP"
    and "getUserProfile svc cid = Returns cr" "success cr" "data cr = Some customer"
    and "initializePayment svc (paymentData (NEXT_PUBLIC_APP_URL svc) oid cid ord customer)
           = Returns pr"
    and "\<not> success pr \<or> \<not> truthy_str (Option.bind (data pr) authorizationUrl)"
  shows "POST svc (Returns body) =
           (NextResponse_json
              (Failed (or_else (error pr) ''Failed to initialize payment'')) 500,
            [GetOrderById oid, GetUserProfile cid,
             InitializePayment (paymentData (NEXT_PUBLIC_APP_URL svc) oid cid ord customer)])"
  using assms by (auto simp add: POST_def Let_def)

lemma POST_payment_ok:
  assumes "request_body.orderId body = oid" "request_body.customerId body = cid"
    and "truthy oid" "truthy cid" "getOrderById svc oid = Returns r"
    and "success r" "data r = Some d" "order d = Some ord"
    and "JStr (Order.customerId ord) = cid" "status ord = READY"
    and "paymentMethod ord = PAY_ON_PICKUP"
    and "getUserProfile svc cid = Returns cr" "success cr" "data cr = Some customer"
    and "initializePayment svc (paymentData (NEXT_PUBLIC_APP_URL svc) oid cid ord customer)
           = Returns pr"
    and "success pr" "data pr = Some p" "authorizationUrl p = Some url" "url \<noteq> []"
  shows "POST svc (Returns body) =
           (NextResponse_json (Succeeded (Some url) (reference p)) 200,
            [GetOrderById oid, GetUserProfile cid,
             InitializePayment (paymentData (NEXT_PUBLIC_APP_URL svc) oid cid ord customer)])"
  using assms by (simp add: POST_def Let_def)

subsection \<open>The calls made and the shape of every response\<close>

lemma POST_calls_shape:
  "\<exists>oid cid pd. snd (POST svc req) = [] \<or> snd (POST svc req) = [GetOrderById oid]
     \<or> snd (POST svc req) = [GetOrderById oid, GetUserProfile cid]
     \<or> snd (POST svc req) = [GetOrderById oid, GetUserProfile cid, InitializePayment pd]"
  by (auto simp add: POST_def Let_def split: outcome.splits option.splits if_splits)

lemma POST_tagged:
  "(is_success (fst (POST svc req)) \<and> status_code (fst (POST svc req)) = 200) \<or>
   (\<not> is_success (fst (POST svc req)) \<and> status_code (fst (POST svc req)) \<in> {400, 403, 404, 500})"
  by (auto simp add: POST_def Let_def internal_server_error_def split: outcome.splits option.splits if_splits)

lemma POST_one_initiation_iff:
  "(initiations (snd (POST svc req)) = 1) =
   (\<exists>body r d ord cr customer.
      req = Returns body \<and> truthy (request_body.orderId body) \<and>
      truthy (request_body.customerId body) \<and>
      getOrderById svc (request_body.orderId body) = Returns r \<and> success r \<and>
      data r = Some d \<and> order d = Some ord \<and>
      JStr (Order.customerId ord) = request_body.customerId body \<and> status ord = READY \<and>
      paymentMethod ord = PAY_ON_PICKUP \<and>
      getUserProfile svc (request_body.customerId body) = Returns cr \<and> success cr \<and>
      data cr = Some customer)"
  by (auto simp add: POST_def Let_def initiations_def split: outcome.splits option.splits if_splits)

lemma POST_initiations_le: "initiations (snd (POST svc req)) = 0 \<or> initiations (snd (POST svc req)) = 1"
  by (auto simp add: POST_def Let_def initiations_def split: outcome.splits option.splits if_splits)

text \<open>Every path on which something throws ends in the answer of the \<^verbatim>\<open>catch\<close> block.\<close>

lemma POST_caught:
  assumes "req = Throws \<or>
       (\<exists>body. req = Returns body \<and>
         truthy (request_body.orderId body) \<and> truthy (request_body.customerId body) \<and>
         (getOrderById svc (request_body.orderId body) = Throws \<or>
          (\<exists>r d. getOrderById svc (request_body.orderId body) = Returns r \<and>
             success r \<and> data r = Some d \<and>
             (order d = None \<or>
              (\<exists>ord. order d = Some ord \<and>
                 JStr (Order.customerId ord) = request_body.customerId body \<and>
                 status ord = READY \<and> paymentMethod ord = PAY_ON_PICKUP \<and>
                 (getUserProfile svc (request_body.customerId body) = Throws \<or>
                  (\<exists>cr customer.
                     getUserProfile svc (request_body.customerId body) = Returns cr \<and>
                     success cr \<and> data cr = Some customer \<and>
                     initializePayment svc
                       (paymentData (NEXT_PUBLIC_APP_URL svc) (request_body.orderId body)
                          (request_body.customerId body) ord customer) = Throws)))))))"
  shows "fst (POST svc req) = NextResponse_json (Failed ''Internal server error'') 500"
proof -
  from assms have "fst (POST svc req) = internal_server_error"
  proof (elim disjE exE conjE)
    assume "req = Throws"
    then show ?thesis by (simp add: POST_json_throws)
  next
    fix body
    assume "req = Returns body" "truthy (request_body.orderId body)"
      "truthy (request_body.customerId body)"
      "getOrderById svc (request_body.orderId body) = Throws"
    then show ?thesis
      using POST_order_throws [of body "request_body.orderId body"
                                 "request_body.customerId body" svc] by simp
  next
    fix body r d
    assume "req = Returns body" "truthy (request_body.orderId body)"
      "truthy (request_body.customerId body)"
      "getOrderById svc (request_body.orderId body) = Returns r"
      "success r" "data r = Some d" "order d = None"
    then show ?thesis
      using POST_no_order [of body "request_body.orderId body"
                              "request_body.customerId body" svc r d] by simp
  next
    fix body r d ord
    assume "req = Returns body" "truthy (request_body.orderId body)"
      "truthy (request_body.customerId body)"
      "getOrderById svc (request_body.orderId body) = Returns r"
      "success r" "data r = Some d" "order d = Some ord"
      "JStr (Order.customerId ord) = request_body.customerId body"
      "status ord = READY" "paymentMethod ord = PAY_ON_PICKUP"
      "getUserProfile svc (request_body.customerId body) = Throws"
    then show ?thesis
      using POST_profile_throws [of body "request_body.orderId body"
                                   "request_body.customerId body" svc r d ord] by simp
  next
    fix body r d ord cr customer
    assume "req = Returns body" "truthy (request_body.orderId body)"
      "truthy (request_body.customerId body)"
      "getOrderById svc (request_body.orderId body) = Returns r"
      "success r" "data r = Some d" "order d = Some ord"
      "JStr (Order.customerId ord) = request_body.customerId body"
      "status ord = READY" "paymentMethod ord = PAY_ON_PICKUP"
      "getUserProfile svc (request_body.customerId body) = Returns cr"
      "success cr" "data cr = Some customer"
      "initializePayment svc
         (paymentData (NEXT_PUBLIC_APP_URL svc) (request_body.orderId body)
            (request_body.customerId body) ord customer) = Throws"
    then show ?thesis
      using POST_payment_throws [of body "request_body.orderId body"
                                   "request_body.customerId body" svc r d ord cr customer]
      by simp
  qed
  then show ?thesis
    by (simp add: internal_server_error_def)
qed

subsection \<open>The claims\<close>

text \<open>Unfolding the concrete surroundings.\<close>

lemmas fx = scenario_def fixture_def resolves_def fails_with_def request_def request_O1_def
  order_O1_def customer_C1_def checkout_x_def

text \<open>
  C1. For an order that is ready, paid on pickup and owned by the supplied customer id,
  whose customer profile resolves: if the payment service answers success with a
  (non-empty) checkout URL, the handler answers success (status 200) carrying exactly
  that URL and the service's reference, and the one initiation request it sent has the
  order's \<^verbatim>\<open>finalAmount\<close> as amount and the currency \<^verbatim>\<open>NGN\<close>.
\<close>

theorem C1_success_returns_the_checkout_unchanged:
  assumes "truthy oid" "truthy cid"
    and "getOrderById svc oid = Returns r" "success r" "data r = Some d" "order d = Some ord"
    and "JStr (Order.customerId ord) = cid"
    and "status ord = READY" "paymentMethod ord = PAY_ON_PICKUP"
    and "getUserProfile svc cid = Returns cr" "success cr" "data cr = Some customer"
    and "pd = paymentData (NEXT_PUBLIC_APP_URL svc) oid cid ord customer"
    and "initializePayment svc pd = Returns pr"
    and "success pr" "data pr = Some p" "authorizationUrl p = Some url" "url \<noteq> []"
  shows "POST svc (request oid cid) =
           (NextResponse_json (Succeeded (Some url) (reference p)) 200,
            [GetOrderById oid, GetUserProfile cid, InitializePayment pd])
         \<and> amount pd = finalAmount ord \<and> currency pd = ''NGN''"
proof -
  let ?body = "\<lparr> request_body.orderId = oid, request_body.customerId = cid \<rparr>"
  have "POST svc (Returns ?body) =
          (NextResponse_json (Succeeded (Some url) (reference p)) 200,
           [GetOrderById oid, GetUserProfile cid, InitializePayment pd])"
    using assms POST_payment_ok [of ?body oid cid svc r d ord cr customer pr p url]
    by simp
  moreover have "amount pd = finalAmount ord" and "currency pd = ''NGN''"
    using assms(13) by (simp_all add: paymentData_def)
  ultimately show ?thesis
    by (simp add: request_def)
qed

theorem C1_witness:
  "POST scenario request_O1 =
     (NextResponse_json (Succeeded (Some ''https://pay.example/x'') (Some ''REF123'')) 200,
      [GetOrderById (JStr ''O1''), GetUserProfile (JStr ''C1''),
       InitializePayment
         (paymentData (Some ''https://app.example'') (JStr ''O1'') (JStr ''C1'')
            order_O1 customer_C1)])
   \<and> amount (paymentData (Some ''https://app.example'') (JStr ''O1'') (JStr ''C1'')
                order_O1 customer_C1) = 500000
   \<and> currency (paymentData (Some ''https://app.example'') (JStr ''O1'') (JStr ''C1'')
                  order_O1 customer_C1) = ''NGN''"
  using C1_success_returns_the_checkout_unchanged
    [of "JStr ''O1''" "JStr ''C1''" scenario
        "\<lparr> success = True, data = Some \<lparr> order = Some order_O1 \<rparr>, error = None \<rparr>"
        "\<lparr> order = Some order_O1 \<rparr>" order_O1
        "\<lparr> success = True, data = Some customer_C1, error = None \<rparr>" customer_C1
        "paymentData (Some ''https://app.example'') (JStr ''O1'') (JStr ''C1'') order_O1 customer_C1"
        "\<lparr> success = True, data = Some checkout_x, error = None \<rparr>" checkout_x
        "''https://pay.example/x''"]
  by (simp add: fx)

text \<open>
  C2. When both identifiers are supplied and the order store returns an order whose
  owning customer id is not the supplied customer id, the handler answers 403
  \<^verbatim>\<open>Unauthorized access to order\<close> after the single order lookup, whatever the
  order's status, payment method and amount are: the ownership check comes before the
  status check and the payment-method check.
\<close>

theorem C2_foreign_order_is_unauthorized:
  assumes "truthy oid" "truthy cid"
    and "getOrderById svc oid = Returns r" "success r" "data r = Some d" "order d = Some ord"
    and "JStr (Order.customerId ord) \<noteq> cid"
  shows "POST svc (request oid cid) =
           (NextResponse_json (Failed ''Unauthorized access to order'') 403,
            [GetOrderById oid])"
  using assms
    POST_unauthorized [of "\<lparr> request_body.orderId = oid, request_body.customerId = cid \<rparr>"
                          oid cid svc r d ord]
  by (simp add: request_def)

theorem C2_witness:
  "POST scenario (request (JStr ''O1'') (JStr ''C2'')) =
     (NextResponse_json (Failed ''Unauthorized access to order'') 403,
      [GetOrderById (JStr ''O1'')])
   \<and> POST (fixture (resolves \<lparr> order = Some (order_O1 \<lparr> status := CANCELLED,
                        paymentMethod := OtherMethod ''PAY_BY_TRANSFER'' \<rparr>) \<rparr>)
               (resolves customer_C1) (resolves checkout_x))
        (request (JStr ''O1'') (JStr ''C2'')) =
     (NextResponse_json (Failed ''Unauthorized access to order'') 403,
      [GetOrderById (JStr ''O1'')])"
  using
    C2_foreign_order_is_unauthorized
      [where oid = "JStr ''O1''" and cid = "JStr ''C2''" and svc = scenario
         and r = "\<lparr> success = True, data = Some \<lparr> order = Some order_O1 \<rparr>, error = None \<rparr>"
         and d = "\<lparr> order = Some order_O1 \<rparr>" and ord = order_O1]
    C2_foreign_order_is_unauthorized
      [where oid = "JStr ''O1''" and cid = "JStr ''C2''"
         and svc = "fixture (resolves \<lparr> order = Some (order_O1 \<lparr> status := CANCELLED,
                        paymentMethod := OtherMethod ''PAY_BY_TRANSFER'' \<rparr>) \<rparr>)
               (resolves customer_C1) (resolves checkout_x)"
         and r = "\<lparr> success = True, data = Some \<lparr> order = Some (order_O1 \<lparr> status := CANCELLED,
                        paymentMethod := OtherMethod ''PAY_BY_TRANSFER'' \<rparr>) \<rparr>, error = None \<rparr>"
         and d = "\<lparr> order = Some (order_O1 \<lparr> status := CANCELLED,
                        paymentMethod := OtherMethod ''PAY_BY_TRANSFER'' \<rparr>) \<rparr>"
         and ord = "order_O1 \<lparr> status := CANCELLED,
                        paymentMethod := OtherMethod ''PAY_BY_TRANSFER'' \<rparr>"]
  by (simp add: fx)

text \<open>
  C6. For an order owned by the requesting customer: a status other than
  \<^verbatim>\<open>READY\<close> is rejected (400, \<^verbatim>\<open>Order is not ready for pickup\<close>)
  whatever the payment method is, and a ready order whose payment method is not
  \<^verbatim>\<open>PAY_ON_PICKUP\<close> is rejected (400, \<^verbatim>\<open>Order is not set for pay on
  pickup\<close>). The status check comes first: an order wrong on both counts gets the
  not-ready answer.
\<close>

theorem C6_not_ready_or_wrong_method_is_invalid_state:
  assumes "truthy oid" "truthy cid"
    and "getOrderById svc oid = Returns r" "success r" "data r = Some d" "order d = Some ord"
    and "JStr (Order.customerId ord) = cid"
  shows "(status ord \<noteq> READY \<longrightarrow>
            POST svc (request oid cid) =
              (NextResponse_json (Failed ''Order is not ready for pickup'') 400,
               [GetOrderById oid]))
       \<and> (status ord = READY \<and> paymentMethod ord \<noteq> PAY_ON_PICKUP \<longrightarrow>
            POST svc (request oid cid) =
              (NextResponse_json (Failed ''Order is not set for pay on pickup'') 400,
               [GetOrderById oid]))"
proof (intro conjI impI)
  let ?body = "\<lparr> request_body.orderId = oid, request_body.customerId = cid \<rparr>"
  assume "status ord \<noteq> READY"
  with assms POST_not_ready [of ?body oid cid svc r d ord]
  show "POST svc (request oid cid) =
          (NextResponse_json (Failed ''Order is not ready for pickup'') 400,
           [GetOrderById oid])"
    by (simp add: request_def)
next
  let ?body = "\<lparr> request_body.orderId = oid, request_body.customerId = cid \<rparr>"
  assume "status ord = READY \<and> paymentMethod ord \<noteq> PAY_ON_PICKUP"
  with assms POST_wrong_method [of ?body oid cid svc r d ord]
  show "POST svc (request oid cid) =
          (NextResponse_json (Failed ''Order is not set for pay on pickup'') 400,
           [GetOrderById oid])"
    by (simp add: request_def)
qed

theorem C6_witness:
  "POST (fixture (resolves \<lparr> order = Some (order_O1 \<lparr> status := PENDING,
                      paymentMethod := OtherMethod ''PAY_ONLINE'' \<rparr>) \<rparr>)
           (resolves customer_C1) (resolves checkout_x)) request_O1 =
     (NextResponse_json (Failed ''Order is not ready for pickup'') 400,
      [GetOrderById (JStr ''O1'')])
   \<and> POST (fixture (resolves \<lparr> order = Some (order_O1 \<lparr>
                        paymentMethod := OtherMethod ''PAY_ONLINE'' \<rparr>) \<rparr>)
             (resolves customer_C1) (resolves checkout_x)) request_O1 =
     (NextResponse_json (Failed ''Order is not set for pay on pickup'') 400,
      [GetOrderById (JStr ''O1'')])"
  using
    C6_not_ready_or_wrong_method_is_invalid_state
      [where oid = "JStr ''O1''" and cid = "JStr ''C1''"
         and svc = "fixture (resolves \<lparr> order = Some (order_O1 \<lparr> status := PENDING,
                      paymentMethod := OtherMethod ''PAY_ONLINE'' \<rparr>) \<rparr>)
           (resolves customer_C1) (resolves checkout_x)"
         and r = "\<lparr> success = True, data = Some \<lparr> order = Some (order_O1 \<lparr> status := PENDING,
                      paymentMethod := OtherMethod ''PAY_ONLINE'' \<rparr>) \<rparr>, error = None \<rparr>"
         and d = "\<lparr> order = Some (order_O1 \<lparr> status := PENDING,
                      paymentMethod := OtherMethod ''PAY_ONLINE'' \<rparr>) \<rparr>"
         and ord = "order_O1 \<lparr> status := PENDING,
                      paymentMethod := OtherMethod ''PAY_ONLINE'' \<rparr>"]
    C6_not_ready_or_wrong_method_is_invalid_state
      [where oid = "JStr ''O1''" and cid = "JStr ''C1''"
         and svc = "fixture (resolves \<lparr> order = Some (order_O1 \<lparr>
                      paymentMethod := OtherMethod ''PAY_ONLINE'' \<rparr>) \<rparr>)
           (resolves customer_C1) (resolves checkout_x)"
         and r = "\<lparr> success = True, data = Some \<lparr> order = Some (order_O1 \<lparr>
                      paymentMethod := OtherMethod ''PAY_ONLINE'' \<rparr>) \<rparr>, error = None \<rparr>"
         and d = "\<lparr> order = Some (order_O1 \<lparr>
                      paymentMethod := OtherMethod ''PAY_ONLINE'' \<rparr>) \<rparr>"
         and ord = "order_O1 \<lparr> paymentMethod := OtherMethod ''PAY_ONLINE'' \<rparr>"]
  by (simp add: fx)

text \<open>
  C7. When \<^verbatim>\<open>orderId\<close> or \<^verbatim>\<open>customerId\<close> is missing or empty (or
  falsy in any other way), the handler answers 400 \<^verbatim>\<open>Order ID and Customer ID are
  required\<close>, whatever the services would answer, and calls none of them.
\<close>

theorem C7_missing_identifier_is_malformed:
  assumes "\<not> truthy oid \<or> \<not> truthy cid"
  shows "POST svc (request oid cid) =
           (NextResponse_json (Failed ''Order ID and Customer ID are required'') 400, [])"
  using assms by (simp add: POST_def request_def)

theorem C7_witness:
  "POST scenario (request JUndefined (JStr ''C1'')) =
     (NextResponse_json (Failed ''Order ID and Customer ID are required'') 400, [])
   \<and> POST scenario (request (JStr ''O1'') (JStr '''')) =
     (NextResponse_json (Failed ''Order ID and Customer ID are required'') 400, [])"
  using C7_missing_identifier_is_malformed [of JUndefined "JStr ''C1''" scenario]
    C7_missing_identifier_is_malformed [of "JStr ''O1''" "JStr ''''" scenario]
  by simp

text \<open>
  C8. For a ready, pay-on-pickup order owned by the requesting customer whose profile
  lookup answers failure or no data, the handler answers \<^verbatim>\<open>Customer not found\<close>
  (404), which is not its answer \<^verbatim>\<open>Order not found\<close> for a missing order, and
  it has made the two lookups and no payment initiation.
\<close>

theorem C8_unresolved_customer_is_reported_without_initiation:
  assumes "truthy oid" "truthy cid"
    and "getOrderById svc oid = Returns r" "success r" "data r = Some d" "order d = Some ord"
    and "JStr (Order.customerId ord) = cid"
    and "status ord = READY" "paymentMethod ord = PAY_ON_PICKUP"
    and "getUserProfile svc cid = Returns cr" "\<not> success cr \<or> data cr = None"
  shows "POST svc (request oid cid) =
           (NextResponse_json (Failed ''Customer not found'') 404,
            [GetOrderById oid, GetUserProfile cid])
       \<and> fst (POST svc (request oid cid)) \<noteq> NextResponse_json (Failed ''Order not found'') 404
       \<and> initiations (snd (POST svc (request oid cid))) = 0"
proof -
  let ?body = "\<lparr> request_body.orderId = oid, request_body.customerId = cid \<rparr>"
  have "POST svc (request oid cid) =
          (NextResponse_json (Failed ''Customer not found'') 404,
           [GetOrderById oid, GetUserProfile cid])"
    using assms POST_customer_not_found [of ?body oid cid svc r d ord cr]
    by (simp add: request_def)
  then show ?thesis
    by (simp add: initiations_def)
qed

theorem C8_witness:
  "POST (fixture (resolves \<lparr> order = Some order_O1 \<rparr>) (fails_with (Some ''no such user''))
           (resolves checkout_x)) request_O1 =
     (NextResponse_json (Failed ''Customer not found'') 404,
      [GetOrderById (JStr ''O1''), GetUserProfile (JStr ''C1'')])
   \<and> initiations (snd (POST (fixture (resolves \<lparr> order = Some order_O1 \<rparr>)
                               (fails_with (Some ''no such user'')) (resolves checkout_x))
                         request_O1)) = 0"
proof -
  let ?svc = "fixture (resolves \<lparr> order = Some order_O1 \<rparr>)
                (fails_with (Some ''no such user'')) (resolves checkout_x)"
  have "POST ?svc (request (JStr ''O1'') (JStr ''C1'')) =
          (NextResponse_json (Failed ''Customer not found'') 404,
           [GetOrderById (JStr ''O1''), GetUserProfile (JStr ''C1'')])
        \<and> fst (POST ?svc (request (JStr ''O1'') (JStr ''C1'')))
            \<noteq> NextResponse_json (Failed ''Order not found'') 404
        \<and> initiations (snd (POST ?svc (request (JStr ''O1'') (JStr ''C1'')))) = 0"
    by (rule C8_unresolved_customer_is_reported_without_initiation
          [where r = "\<lparr> success = True, data = Some \<lparr> order = Some order_O1 \<rparr>,
                         error = None \<rparr>"
             and d = "\<lparr> order = Some order_O1 \<rparr>" and ord = order_O1
             and cr = "\<lparr> success = False, data = None, error = Some ''no such user'' \<rparr>"])
       (simp_all add: fx)
  then show ?thesis
    by (simp add: request_O1_def initiations_def)
qed

text \<open>
  C5. When the handler reaches the payment initiation and the payment service answers
  failure, or success without data, or success with data whose checkout URL is absent or
  empty, the handler answers a failure with status 500, never a success. The message is
  the service's error message when it gave a non-empty one, and \<^verbatim>\<open>Failed to
  initialize payment\<close> otherwise.
\<close>

theorem C5_failed_or_incomplete_initiation_is_payment_failure:
  assumes "truthy oid" "truthy cid"
    and "getOrderById svc oid = Returns r" "success r" "data r = Some d" "order d = Some ord"
    and "JStr (Order.customerId ord) = cid"
    and "status ord = READY" "paymentMethod ord = PAY_ON_PICKUP"
    and "getUserProfile svc cid = Returns cr" "success cr" "data cr = Some customer"
    and "pd = paymentData (NEXT_PUBLIC_APP_URL svc) oid cid ord customer"
    and "initializePayment svc pd = Returns pr"
    and "\<not> success pr \<or> data pr = None \<or>
         (\<exists>p. data pr = Some p \<and> (authorizationUrl p = None \<or> authorizationUrl p = Some []))"
  shows "POST svc (request oid cid) =
           (NextResponse_json
              (Failed (or_else (error pr) ''Failed to initialize payment'')) 500,
            [GetOrderById oid, GetUserProfile cid, InitializePayment pd])
       \<and> \<not> is_success (fst (POST svc (request oid cid)))
       \<and> (\<forall>m. error pr = Some m \<and> m \<noteq> [] \<longrightarrow>
              error_message (fst (POST svc (request oid cid))) = Some m)
       \<and> (error pr = None \<or> error pr = Some [] \<longrightarrow>
              error_message (fst (POST svc (request oid cid)))
                = Some ''Failed to initialize payment'')"
proof -
  let ?body = "\<lparr> request_body.orderId = oid, request_body.customerId = cid \<rparr>"
  have "\<not> success pr \<or> \<not> truthy_str (Option.bind (data pr) authorizationUrl)"
    using assms(15) by auto
  then have "POST svc (request oid cid) =
          (NextResponse_json
             (Failed (or_else (error pr) ''Failed to initialize payment'')) 500,
           [GetOrderById oid, GetUserProfile cid, InitializePayment pd])"
    using assms(1-14) POST_payment_failed [of ?body oid cid svc r d ord cr customer pr]
    by (simp add: request_def)
  then show ?thesis
    by auto
qed

theorem C5_witness:
  "POST (fixture (resolves \<lparr> order = Some order_O1 \<rparr>) (resolves customer_C1)
           (resolves (checkout_x \<lparr> authorizationUrl := None \<rparr>))) request_O1 =
     (NextResponse_json (Failed ''Failed to initialize payment'') 500,
      [GetOrderById (JStr ''O1''), GetUserProfile (JStr ''C1''),
       InitializePayment (paymentData (Some ''https://app.example'') (JStr ''O1'')
                            (JStr ''C1'') order_O1 customer_C1)])
   \<and> POST (fixture (resolves \<lparr> order = Some order_O1 \<rparr>) (resolves customer_C1)
             (fails_with (Some ''card declined''))) request_O1 =
     (NextResponse_json (Failed ''card declined'') 500,
      [GetOrderById (JStr ''O1''), GetUserProfile (JStr ''C1''),
       InitializePayment (paymentData (Some ''https://app.example'') (JStr ''O1'')
                            (JStr ''C1'') order_O1 customer_C1)])"
  using
    C5_failed_or_incomplete_initiation_is_payment_failure
      [where oid = "JStr ''O1''" and cid = "JStr ''C1''"
         and svc = "fixture (resolves \<lparr> order = Some order_O1 \<rparr>) (resolves customer_C1)
                      (resolves (checkout_x \<lparr> authorizationUrl := None \<rparr>))"
         and r = "\<lparr> success = True, data = Some \<lparr> order = Some order_O1 \<rparr>, error = None \<rparr>"
         and d = "\<lparr> order = Some order_O1 \<rparr>" and ord = order_O1
         and cr = "\<lparr> success = True, data = Some customer_C1, error = None \<rparr>"
         and customer = customer_C1
         and pd = "paymentData (Some ''https://app.example'') (JStr ''O1'')
                            (JStr ''C1'') order_O1 customer_C1"
         and pr = "\<lparr> success = True,
                     data = Some (checkout_x \<lparr> authorizationUrl := None \<rparr>),
                     error = None \<rparr>"]
    C5_failed_or_incomplete_initiation_is_payment_failure
      [where oid = "JStr ''O1''" and cid = "JStr ''C1''"
         and svc = "fixture (resolves \<lparr> order = Some order_O1 \<rparr>) (resolves customer_C1)
                      (fails_with (Some ''card declined''))"
         and r = "\<lparr> success = True, data = Some \<lparr> order = Some order_O1 \<rparr>, error = None \<rparr>"
         and d = "\<lparr> order = Some order_O1 \<rparr>" and ord = order_O1
         and cr = "\<lparr> success = True, data = Some customer_C1, error = None \<rparr>"
         and customer = customer_C1
         and pd = "paymentData (Some ''https://app.example'') (JStr ''O1'')
                            (JStr ''C1'') order_O1 customer_C1"
         and pr = "\<lparr> success = False, data = None, error = Some ''card declined'' \<rparr>"]
  by (simp add: fx)

text \<open>A success answer that lacks only the reference is passed on as a success.\<close>

lemma POST_success_without_reference:
  "fst (POST (fixture (resolves \<lparr> order = Some order_O1 \<rparr>) (resolves customer_C1)
           (resolves (checkout_x \<lparr> reference := None \<rparr>))) request_O1) =
     NextResponse_json (Succeeded (Some ''https://pay.example/x'') None) 200"
  by (simp add: POST_def Let_def fx paymentData_def)

text \<open>
  C9. For a resolved customer profile, the \<^verbatim>\<open>phoneNumber\<close> of the metadata in
  the initiation request the handler sends is the profile's phone when that is a string,
  the \<^verbatim>\<open>number\<close> property when the phone is an object that has one, and the
  empty string when the phone is absent or is an object without a number.
\<close>

theorem C9_metadata_phone_is_normalised:
  assumes "truthy oid" "truthy cid"
    and "getOrderById svc oid = Returns r" "success r" "data r = Some d" "order d = Some ord"
    and "JStr (Order.customerId ord) = cid"
    and "status ord = READY" "paymentMethod ord = PAY_ON_PICKUP"
    and "getUserProfile svc cid = Returns cr" "success cr" "data cr = Some customer"
    and "pd = paymentData (NEXT_PUBLIC_APP_URL svc) oid cid ord customer"
  shows "snd (POST svc (request oid cid)) =
           [GetOrderById oid, GetUserProfile cid, InitializePayment pd]
       \<and> (\<forall>s. phone customer = PhoneString s \<longrightarrow> phoneNumber (metadata pd) = s)
       \<and> (\<forall>n. phone customer = PhoneObject (Some n) \<longrightarrow> phoneNumber (metadata pd) = n)
       \<and> (phone customer = PhoneObject None \<or> phone customer = PhoneAbsent \<longrightarrow>
             phoneNumber (metadata pd) = [])"
proof -
  let ?body = "\<lparr> request_body.orderId = oid, request_body.customerId = cid \<rparr>"
  have calls: "snd (POST svc (request oid cid)) =
                 [GetOrderById oid, GetUserProfile cid, InitializePayment pd]"
  proof (cases "initializePayment svc pd")
    case Throws
    with assms POST_payment_throws [of ?body oid cid svc r d ord cr customer]
    show ?thesis by (simp add: request_def)
  next
    case (Returns pr)
    show ?thesis
    proof (cases "success pr \<and> truthy_str (Option.bind (data pr) authorizationUrl)")
      case True
      then obtain p url where "data pr = Some p" "authorizationUrl p = Some url" "url \<noteq> []"
        by (cases "data pr"; cases "Option.bind (data pr) authorizationUrl") auto
      with True Returns assms
        POST_payment_ok [of ?body oid cid svc r d ord cr customer pr p url]
      show ?thesis by (simp add: request_def)
    next
      case False
      with Returns assms POST_payment_failed [of ?body oid cid svc r d ord cr customer pr]
      show ?thesis by (simp add: request_def)
    qed
  qed
  have "\<forall>s. phone customer = PhoneString s \<longrightarrow> phoneNumber (metadata pd) = s"
    using assms(13) by (simp add: paymentData_def)
  moreover have "\<forall>n. phone customer = PhoneObject (Some n) \<longrightarrow> phoneNumber (metadata pd) = n"
    using assms(13) by (simp add: paymentData_def)
  moreover have "phone customer = PhoneObject None \<or> phone customer = PhoneAbsent \<longrightarrow>
                   phoneNumber (metadata pd) = []"
    using assms(13) by (auto simp add: paymentData_def)
  ultimately show ?thesis
    using calls by blast
qed

theorem C9_witness:
  "phoneNumber (metadata (paymentData (Some ''https://app.example'') (JStr ''O1'')
       (JStr ''C1'') order_O1 customer_C1)) = ''08012345678''
   \<and> phoneNumber (metadata (paymentData (Some ''https://app.example'') (JStr ''O1'')
       (JStr ''C1'') order_O1
       (customer_C1 \<lparr> phone := PhoneObject (Some ''08012345678'') \<rparr>))) = ''08012345678''
   \<and> phoneNumber (metadata (paymentData (Some ''https://app.example'') (JStr ''O1'')
       (JStr ''C1'') order_O1 (customer_C1 \<lparr> phone := PhoneAbsent \<rparr>))) = []
   \<and> snd (POST (fixture (resolves \<lparr> order = Some order_O1 \<rparr>)
                  (resolves (customer_C1 \<lparr> phone := PhoneAbsent \<rparr>)) (resolves checkout_x))
             request_O1) =
       [GetOrderById (JStr ''O1''), GetUserProfile (JStr ''C1''),
        InitializePayment (paymentData (Some ''https://app.example'') (JStr ''O1'')
          (JStr ''C1'') order_O1 (customer_C1 \<lparr> phone := PhoneAbsent \<rparr>))]"
proof -
  let ?o = "\<lparr> order = Some order_O1 \<rparr>"
  let ?r = "\<lparr> success = True, data = Some ?o, error = None \<rparr>"
  let ?c2 = "customer_C1 \<lparr> phone := PhoneObject (Some ''08012345678'') \<rparr>"
  let ?c3 = "customer_C1 \<lparr> phone := PhoneAbsent \<rparr>"
  let ?pd = "paymentData (Some ''https://app.example'') (JStr ''O1'') (JStr ''C1'') order_O1"
  note w1 = C9_metadata_phone_is_normalised
      [where oid = "JStr ''O1''" and cid = "JStr ''C1''" and svc = scenario
         and r = ?r and d = ?o and ord = order_O1
         and cr = "\<lparr> success = True, data = Some customer_C1, error = None \<rparr>"
         and customer = customer_C1 and pd = "?pd customer_C1"]
  note w2 = C9_metadata_phone_is_normalised
      [where oid = "JStr ''O1''" and cid = "JStr ''C1''"
         and svc = "fixture (resolves ?o) (resolves ?c2) (resolves checkout_x)"
         and r = ?r and d = ?o and ord = order_O1
         and cr = "\<lparr> success = True, data = Some ?c2, error = None \<rparr>"
         and customer = ?c2 and pd = "?pd ?c2"]
  note w3 = C9_metadata_phone_is_normalised
      [where oid = "JStr ''O1''" and cid = "JStr ''C1''"
         and svc = "fixture (resolves ?o) (resolves ?c3) (resolves checkout_x)"
         and r = ?r and d = ?o and ord = order_O1
         and cr = "\<lparr> success = True, data = Some ?c3, error = None \<rparr>"
         and customer = ?c3 and pd = "?pd ?c3"]
  have "phoneNumber (metadata (?pd customer_C1)) = ''08012345678''"
    using w1 by (simp add: fx)
  moreover have "phoneNumber (metadata (?pd ?c2)) = ''08012345678''"
    using w2 by (simp add: fx)
  moreover have "phoneNumber (metadata (?pd ?c3)) = []
      \<and> snd (POST (fixture (resolves ?o) (resolves ?c3) (resolves checkout_x)) request_O1) =
          [GetOrderById (JStr ''O1''), GetUserProfile (JStr ''C1''),
           InitializePayment (?pd ?c3)]"
    using w3 by (simp add: fx)
  ultimately show ?thesis
    by simp
qed

text \<open>
  C10. An unresolved customer profile is answered with status 404 and the message
  \<^verbatim>\<open>Customer not found\<close>; an order that is not found is answered with status 404
  too, and the message is the store's error message or \<^verbatim>\<open>Order not found\<close>.
  The two answers have the same status and the same shape, and differ in the message
  alone.
\<close>

theorem C10_customer_not_found_shares_404_with_order_not_found:
  assumes "truthy oid" "truthy cid"
    and "getOrderById svc oid = Returns r" "success r" "data r = Some d" "order d = Some ord"
    and "JStr (Order.customerId ord) = cid"
    and "status ord = READY" "paymentMethod ord = PAY_ON_PICKUP"
    and "getUserProfile svc cid = Returns cr" "\<not> success cr \<or> data cr = None"
    and "truthy oid'" "truthy cid'"
    and "getOrderById svc' oid' = Returns r'" "\<not> success r' \<or> data r' = None"
  shows "fst (POST svc (request oid cid)) =
           NextResponse_json (Failed ''Customer not found'') 404
       \<and> fst (POST svc' (request oid' cid')) =
           NextResponse_json (Failed (or_else (error r') ''Order not found'')) 404
       \<and> status_code (fst (POST svc (request oid cid))) =
           status_code (fst (POST svc' (request oid' cid')))"
proof -
  let ?body = "\<lparr> request_body.orderId = oid, request_body.customerId = cid \<rparr>"
  let ?body' = "\<lparr> request_body.orderId = oid', request_body.customerId = cid' \<rparr>"
  have "fst (POST svc (request oid cid)) =
          NextResponse_json (Failed ''Customer not found'') 404"
    using assms(1-11) POST_customer_not_found [of ?body oid cid svc r d ord cr]
    by (simp add: request_def)
  moreover have "fst (POST svc' (request oid' cid')) =
          NextResponse_json (Failed (or_else (error r') ''Order not found'')) 404"
    using assms(12-15) POST_not_found [of ?body' oid' cid' svc' r']
    by (simp add: request_def)
  ultimately show ?thesis
    by simp
qed

theorem C10_witness:
  "fst (POST (fixture (resolves \<lparr> order = Some order_O1 \<rparr>) (fails_with None)
                (resolves checkout_x)) request_O1) =
     NextResponse_json (Failed ''Customer not found'') 404
   \<and> fst (POST (fixture (fails_with None) (resolves customer_C1) (resolves checkout_x))
             request_O1) =
     NextResponse_json (Failed ''Order not found'') 404
   \<and> fst (POST (fixture (fails_with (Some ''Document missing'')) (resolves customer_C1)
                  (resolves checkout_x)) request_O1) =
     NextResponse_json (Failed ''Document missing'') 404"
proof -
  let ?o = "\<lparr> order = Some order_O1 \<rparr>"
  let ?svc = "fixture (resolves ?o) (fails_with None) (resolves checkout_x)"
  note w1 = C10_customer_not_found_shares_404_with_order_not_found
      [where oid = "JStr ''O1''" and cid = "JStr ''C1''" and svc = ?svc
         and r = "\<lparr> success = True, data = Some ?o, error = None \<rparr>"
         and d = ?o and ord = order_O1
         and cr = "\<lparr> success = False, data = None, error = None \<rparr>"
         and oid' = "JStr ''O1''" and cid' = "JStr ''C1''"
         and svc' = "fixture (fails_with None) (resolves customer_C1) (resolves checkout_x)"
         and r' = "\<lparr> success = False, data = None, error = None \<rparr>"]
  note w2 = C10_customer_not_found_shares_404_with_order_not_found
      [where oid = "JStr ''O1''" and cid = "JStr ''C1''" and svc = ?svc
         and r = "\<lparr> success = True, data = Some ?o, error = None \<rparr>"
         and d = ?o and ord = order_O1
         and cr = "\<lparr> success = False, data = None, error = None \<rparr>"
         and oid' = "JStr ''O1''" and cid' = "JStr ''C1''"
         and svc' = "fixture (fails_with (Some ''Document missing'')) (resolves customer_C1)
                       (resolves checkout_x)"
         and r' = "\<lparr> success = False, data = None, error = Some ''Document missing'' \<rparr>"]
  have "fst (POST ?svc request_O1) = NextResponse_json (Failed ''Customer not found'') 404
      \<and> fst (POST (fixture (fails_with None) (resolves customer_C1) (resolves checkout_x))
             request_O1) = NextResponse_json (Failed ''Order not found'') 404"
    using w1 by (simp add: fx)
  moreover have "fst (POST (fixture (fails_with (Some ''Document missing''))
                         (resolves customer_C1) (resolves checkout_x)) request_O1) =
                 NextResponse_json (Failed ''Document missing'') 404"
    using w2 by (simp add: fx)
  ultimately show ?thesis
    by simp
qed

text \<open>
  C3. Every invocation ends in a response: a success body with status 200, or a failure
  body (an error message) with status 400, 403, 404 or 500; an exception raised inside
  the handler is caught and answered. The failures have these codes: a missing or empty
  identifier 400; an order that is not found 404; an order of another customer 403; an
  order that is not ready or not paid on pickup 400; a failed payment initiation 500; and
  any caught exception (the body cannot be read, a service call throws, the order payload
  has no order) 500 with the fixed message \<^verbatim>\<open>Internal server error\<close>.
\<close>

theorem C3_every_exit_is_a_tagged_response_with_its_code:
  fixes svc :: services and req :: "request_body outcome"
  defines "res \<equiv> fst (POST svc req)"
  shows
   "((is_success res \<and> status_code res = 200) \<or>
     (\<not> is_success res \<and> status_code res \<in> {400, 403, 404, 500}))
  \<and> (\<forall>body. req = Returns body \<and>
         (\<not> truthy (request_body.orderId body) \<or> \<not> truthy (request_body.customerId body))
       \<longrightarrow> \<not> is_success res \<and> status_code res = 400)
  \<and> (\<forall>body r. req = Returns body \<and>
         truthy (request_body.orderId body) \<and> truthy (request_body.customerId body) \<and>
         getOrderById svc (request_body.orderId body) = Returns r \<and>
         (\<not> success r \<or> data r = None)
       \<longrightarrow> \<not> is_success res \<and> status_code res = 404)
  \<and> (\<forall>body r d ord. req = Returns body \<and>
         truthy (request_body.orderId body) \<and> truthy (request_body.customerId body) \<and>
         getOrderById svc (request_body.orderId body) = Returns r \<and>
         success r \<and> data r = Some d \<and> order d = Some ord \<and>
         JStr (Order.customerId ord) \<noteq> request_body.customerId body
       \<longrightarrow> \<not> is_success res \<and> status_code res = 403)
  \<and> (\<forall>body r d ord. req = Returns body \<and>
         truthy (request_body.orderId body) \<and> truthy (request_body.customerId body) \<and>
         getOrderById svc (request_body.orderId body) = Returns r \<and>
         success r \<and> data r = Some d \<and> order d = Some ord \<and>
         JStr (Order.customerId ord) = request_body.customerId body \<and>
         (status ord \<noteq> READY \<or> paymentMethod ord \<noteq> PAY_ON_PICKUP)
       \<longrightarrow> \<not> is_success res \<and> status_code res = 400)
  \<and> (\<forall>body r d ord cr customer pr. req = Returns body \<and>
         truthy (request_body.orderId body) \<and> truthy (request_body.customerId body) \<and>
         getOrderById svc (request_body.orderId body) = Returns r \<and>
         success r \<and> data r = Some d \<and> order d = Some ord \<and>
         JStr (Order.customerId ord) = request_body.customerId body \<and>
         status ord = READY \<and> paymentMethod ord = PAY_ON_PICKUP \<and>
         getUserProfile svc (request_body.customerId body) = Returns cr \<and>
         success cr \<and> data cr = Some customer \<and>
         initializePayment svc
           (paymentData (NEXT_PUBLIC_APP_URL svc) (request_body.orderId body)
              (request_body.customerId body) ord customer) = Returns pr \<and>
         (\<not> success pr \<or> \<not> truthy_str (Option.bind (data pr) authorizationUrl))
       \<longrightarrow> \<not> is_success res \<and> status_code res = 500)
  \<and> (req = Throws \<or>
       (\<exists>body. req = Returns body \<and>
         truthy (request_body.orderId body) \<and> truthy (request_body.customerId body) \<and>
         (getOrderById svc (request_body.orderId body) = Throws \<or>
          (\<exists>r d. getOrderById svc (request_body.orderId body) = Returns r \<and>
             success r \<and> data r = Some d \<and>
             (order d = None \<or>
              (\<exists>ord. order d = Some ord \<and>
                 JStr (Order.customerId ord) = request_body.customerId body \<and>
                 status ord = READY \<and> paymentMethod ord = PAY_ON_PICKUP \<and>
                 (getUserProfile svc (request_body.customerId body) = Throws \<or>
                  (\<exists>cr customer.
                     getUserProfile svc (request_body.customerId body) = Returns cr \<and>
                     success cr \<and> data cr = Some customer \<and>
                     initializePayment svc
                       (paymentData (NEXT_PUBLIC_APP_URL svc) (request_body.orderId body)
                          (request_body.customerId body) ord customer) = Throws)))))))
       \<longrightarrow> res = NextResponse_json (Failed ''Internal server error'') 500)"
    (is "?tagged \<and> ?malformed \<and> ?not_found \<and> ?unauthorized \<and> ?invalid_state
           \<and> ?payment_failure \<and> ?unexpected")
proof (intro conjI)
  show ?tagged
    unfolding res_def by (rule POST_tagged)
  show ?malformed
    unfolding res_def by (auto simp add: POST_def)
  show ?not_found
    unfolding res_def by (auto simp add: POST_def)
  show ?unauthorized
    unfolding res_def by (auto simp add: POST_def)
  show ?invalid_state
    unfolding res_def by (auto simp add: POST_def Let_def)
  show ?payment_failure
    unfolding res_def by (auto simp add: POST_def Let_def)
  show ?unexpected
    unfolding res_def using POST_caught [of req svc] by blast
qed

theorem C3_witness:
  "status_code (fst (POST scenario (request JUndefined (JStr ''C1'')))) = 400
   \<and> status_code (fst (POST (fixture (fails_with None) (resolves customer_C1)
                              (resolves checkout_x)) request_O1)) = 404
   \<and> status_code (fst (POST scenario (request (JStr ''O1'') (JStr ''C2'')))) = 403
   \<and> status_code (fst (POST (fixture (resolves \<lparr> order = Some (order_O1 \<lparr> status := PENDING \<rparr>) \<rparr>)
                              (resolves customer_C1) (resolves checkout_x)) request_O1)) = 400
   \<and> status_code (fst (POST (fixture (resolves \<lparr> order = Some order_O1 \<rparr>)
                              (resolves customer_C1) (fails_with None)) request_O1)) = 500
   \<and> fst (POST (fixture Throws (resolves customer_C1) (resolves checkout_x)) request_O1) =
       NextResponse_json (Failed ''Internal server error'') 500
   \<and> fst (POST scenario Throws) = NextResponse_json (Failed ''Internal server error'') 500
   \<and> is_success (fst (POST scenario request_O1))
   \<and> status_code (fst (POST scenario request_O1)) = 200"
proof -
  let ?o = "\<lparr> order = Some order_O1 \<rparr>"
  have "status_code (fst (POST scenario (request JUndefined (JStr ''C1'')))) = 400"
    using C3_every_exit_is_a_tagged_response_with_its_code
            [of scenario "request JUndefined (JStr ''C1'')"]
    by (simp add: request_def)
  moreover
  have "status_code (fst (POST (fixture (fails_with None) (resolves customer_C1)
                              (resolves checkout_x)) request_O1)) = 404"
    using C3_every_exit_is_a_tagged_response_with_its_code
            [of "fixture (fails_with None) (resolves customer_C1) (resolves checkout_x)"
                request_O1]
    by (simp add: fx)
  moreover
  have "status_code (fst (POST scenario (request (JStr ''O1'') (JStr ''C2'')))) = 403"
    using C3_every_exit_is_a_tagged_response_with_its_code
            [of scenario "request (JStr ''O1'') (JStr ''C2'')"]
    by (simp add: fx)
  moreover
  have "status_code (fst (POST (fixture (resolves \<lparr> order = Some (order_O1 \<lparr> status := PENDING \<rparr>) \<rparr>)
                              (resolves customer_C1) (resolves checkout_x)) request_O1)) = 400"
    using C3_every_exit_is_a_tagged_response_with_its_code
            [of "fixture (resolves \<lparr> order = Some (order_O1 \<lparr> status := PENDING \<rparr>) \<rparr>)
                   (resolves customer_C1) (resolves checkout_x)" request_O1]
    by (simp add: fx)
  moreover
  have "status_code (fst (POST (fixture (resolves ?o) (resolves customer_C1)
                                  (fails_with None)) request_O1)) = 500"
    using C3_every_exit_is_a_tagged_response_with_its_code
            [of "fixture (resolves ?o) (resolves customer_C1) (fails_with None)" request_O1]
    by (simp add: fx)
  moreover
  have "fst (POST (fixture Throws (resolves customer_C1) (resolves checkout_x)) request_O1) =
          NextResponse_json (Failed ''Internal server error'') 500"
    using C3_every_exit_is_a_tagged_response_with_its_code
            [of "fixture Throws (resolves customer_C1) (resolves checkout_x)" request_O1]
    by (simp add: fx)
  moreover
  have "fst (POST scenario Throws) = NextResponse_json (Failed ''Internal server error'') 500"
    using C3_every_exit_is_a_tagged_response_with_its_code [of scenario Throws]
    by simp
  moreover
  have "is_success (fst (POST scenario request_O1))
      \<and> status_code (fst (POST scenario request_O1)) = 200"
    using C3_every_exit_is_a_tagged_response_with_its_code [of scenario request_O1]
    by (simp add: POST_def Let_def fx)
  ultimately show ?thesis
    by simp
qed

text \<open>
  C4, as amended. Every invocation makes at most one payment-initiation call: exactly
  one when the request passes every check and the customer profile resolves, none
  otherwise. The calls it makes are, in order, the order lookup, the profile lookup and
  the initiation, each at most once and none repeated; it makes no other call, so it
  updates no order, and it keeps no state of its own.
\<close>

theorem C4_at_most_one_initiation_and_only_lookups:
  "(\<exists>oid cid pd.
      snd (POST svc req) = [] \<or> snd (POST svc req) = [GetOrderById oid] \<or>
      snd (POST svc req) = [GetOrderById oid, GetUserProfile cid] \<or>
      snd (POST svc req) = [GetOrderById oid, GetUserProfile cid, InitializePayment pd])
   \<and> initiations (snd (POST svc req)) \<le> 1
   \<and> (initiations (snd (POST svc req)) = 1) =
       (\<exists>body r d ord cr customer.
          req = Returns body \<and> truthy (request_body.orderId body) \<and>
          truthy (request_body.customerId body) \<and>
          getOrderById svc (request_body.orderId body) = Returns r \<and> success r \<and>
          data r = Some d \<and> order d = Some ord \<and>
          JStr (Order.customerId ord) = request_body.customerId body \<and>
          status ord = READY \<and> paymentMethod ord = PAY_ON_PICKUP \<and>
          getUserProfile svc (request_body.customerId body) = Returns cr \<and> success cr \<and>
          data cr = Some customer)"
proof (intro conjI)
  show "\<exists>oid cid pd.
      snd (POST svc req) = [] \<or> snd (POST svc req) = [GetOrderById oid] \<or>
      snd (POST svc req) = [GetOrderById oid, GetUserProfile cid] \<or>
      snd (POST svc req) = [GetOrderById oid, GetUserProfile cid, InitializePayment pd]"
    by (rule POST_calls_shape)
  show "initiations (snd (POST svc req)) \<le> 1"
    using POST_initiations_le [of svc req] by auto
  show "(initiations (snd (POST svc req)) = 1) =
       (\<exists>body r d ord cr customer.
          req = Returns body \<and> truthy (request_body.orderId body) \<and>
          truthy (request_body.customerId body) \<and>
          getOrderById svc (request_body.orderId body) = Returns r \<and> success r \<and>
          data r = Some d \<and> order d = Some ord \<and>
          JStr (Order.customerId ord) = request_body.customerId body \<and>
          status ord = READY \<and> paymentMethod ord = PAY_ON_PICKUP \<and>
          getUserProfile svc (request_body.customerId body) = Returns cr \<and> success cr \<and>
          data cr = Some customer)"
    by (rule POST_one_initiation_iff)
qed

theorem C4_witness:
  "snd (POST scenario request_O1) =
     [GetOrderById (JStr ''O1''), GetUserProfile (JStr ''C1''),
      InitializePayment (paymentData (Some ''https://app.example'') (JStr ''O1'')
                           (JStr ''C1'') order_O1 customer_C1)]
   \<and> initiations (snd (POST scenario request_O1)) = 1
   \<and> initiations (snd (POST scenario (request (JStr ''O1'') (JStr '''')))) = 0"
proof -
  have "initiations (snd (POST scenario request_O1)) = 1"
    using C4_at_most_one_initiation_and_only_lookups [of scenario request_O1]
    by (simp add: fx)
  moreover have "initiations (snd (POST scenario (request (JStr ''O1'') (JStr '''')))) = 0"
    using C4_at_most_one_initiation_and_only_lookups
            [of scenario "request (JStr ''O1'') (JStr '''')"]
    by (simp add: request_def)
  moreover have "snd (POST scenario request_O1) =
     [GetOrderById (JStr ''O1''), GetUserProfile (JStr ''C1''),
      InitializePayment (paymentData (Some ''https://app.example'') (JStr ''O1'')
                           (JStr ''C1'') order_O1 customer_C1)]"
    by (simp add: POST_def Let_def fx)
  ultimately show ?thesis
    by simp
qed

text \<open>
  The claim as first stated asks for exactly one initiation in every invocation. A
  well-formed request for an order that is still pending is rejected before any
  initiation: the number of initiations is 0, not 1.
\<close>

theorem C4_counterexample:
  "initiations (snd (POST (fixture (resolves \<lparr> order = Some (order_O1 \<lparr> status := PENDING \<rparr>) \<rparr>)
                            (resolves customer_C1) (resolves checkout_x)) request_O1)) \<noteq> 1"
  by (simp add: POST_def Let_def fx initiations_def)

end
